theory Spec2Isabelle
  imports Complex_Main
begin

section \<open>Values of the JavaScript runtime\<close>

text \<open>
  A value that \<^verbatim>\<open>JSON.parse\<close> can return. Numbers are kept to the integers: the
  only thing the handler does with a number is test whether it is falsy, and
  floating point is not modelled. An object is the list of its own properties,
  each key once, looked up with \<^const>\<open>map_of\<close>.
\<close>

datatype json =
    JNull
  | JBool bool
  | JNumber int
  | JString string
  | JArray "json list"
  | JObject "(string \<times> json) list"

text \<open>
  The result of a property read is a value or \<^verbatim>\<open>undefined\<close> (here \<open>None\<close>).
  \<open>truthy\<close> is JavaScript's \<^verbatim>\<open>ToBoolean\<close>, which the source applies in
  \<^verbatim>\<open>!prompt\<close>.
\<close>

fun truthy :: "json option \<Rightarrow> bool" where
  "truthy None = False"
| "truthy (Some JNull) = False"
| "truthy (Some (JBool b)) = b"
| "truthy (Some (JNumber n)) = (n \<noteq> 0)"
| "truthy (Some (JString s)) = (s \<noteq> [])"
| "truthy (Some (JArray xs)) = True"
| "truthy (Some (JObject kvs)) = True"

text \<open>
  What the source catches (\<^verbatim>\<open>catch (error: any)\<close>) and reads three attributes
  of: \<^verbatim>\<open>error.status\<close>, \<^verbatim>\<open>error.statusCode\<close> and \<^verbatim>\<open>error.message\<close>. An absent
  attribute is \<open>None\<close>. The thrown value is an object, a status is a number
  or absent, as the provider's client library declares it, and status codes
  are integers.
\<close>

record error =
  status :: "int option"
  statusCode :: "int option"
  message :: "string option"

text \<open>\<^verbatim>\<open>new Error(msg)\<close>: a message and no status attribute.\<close>

definition Error :: "string \<Rightarrow> error" where
  "Error msg = \<lparr>status = None, statusCode = None, message = Some msg\<rparr>"

text \<open>
  \<^verbatim>\<open>x || d\<close> for a number-or-undefined \<open>x\<close> and a number \<open>d\<close>: \<open>x\<close> when it is
  truthy (present and not zero), \<open>d\<close> otherwise.
\<close>

fun number_or :: "int option \<Rightarrow> int \<Rightarrow> int" where
  "number_or None d = d"
| "number_or (Some n) d = (if n \<noteq> 0 then n else d)"

text \<open>\<^verbatim>\<open>s || d\<close> for a string-or-undefined \<open>s\<close>: the empty string is falsy.\<close>

fun string_or :: "string option \<Rightarrow> string \<Rightarrow> string" where
  "string_or None d = d"
| "string_or (Some s) d = (if s \<noteq> [] then s else d)"

section \<open>The provider\<close>

text \<open>
  The argument of \<^verbatim>\<open>groq.chat.completions.create\<close>. The content of the one
  message is the prompt, of whatever type the caller passes: the handler
  passes what \<^verbatim>\<open>body.prompt\<close> gave it.
\<close>

record 'p chat_request =
  messages :: "(string \<times> 'p) list"
  model :: string
  temperature :: rat
  max_tokens :: nat

text \<open>
  The completion the provider returns, as far as the source reads it:
  \<^verbatim>\<open>chatCompletion.choices[0]?.message?.content\<close>. The choices are an array,
  possibly empty; a choice may lack its message and a message may have
  \<^verbatim>\<open>null\<close> content.
\<close>

record chat_message =
  content :: "string option"

record choice =
  message :: "chat_message option"

record chat_completion =
  choices :: "choice list"

text \<open>
  The provider is an external service: a call returns a completion (\<open>Inr\<close>) or
  throws (\<open>Inl\<close>), and the answer may depend on anything, earlier calls
  included. Within one run of the orchestrator there is at most one call per
  index, so the behaviour of the service during a run is a function of the
  index of the call and of the request sent.
\<close>

type_synonym 'p provider = "nat \<Rightarrow> 'p chat_request \<Rightarrow> error + chat_completion"

section \<open>Constants\<close>

definition MODELS :: "string list" where
  "MODELS =
     [''openai/gpt-oss-120b'',
      ''openai/gpt-oss-20b'',
      ''llama-3.3-70b-versatile'',
      ''llama-3.1-8b-instant'']"

definition CORS_HEADERS :: "(string \<times> string) list" where
  "CORS_HEADERS =
     [(''Access-Control-Allow-Origin'', ''*''),
      (''Access-Control-Allow-Headers'', ''Content-Type''),
      (''Access-Control-Allow-Methods'', ''POST, OPTIONS'')]"

section \<open>The fallback orchestrator\<close>

text \<open>
  What a run does besides returning: the console lines and the calls to the
  provider, in the order the source makes them.
\<close>

datatype 'p effect =
    Log_Attempt nat nat string
  | Create "'p chat_request"
  | Warn_Fail string int "string option"
  | Log_Switching
  | Error_Critical error

record generation =
  result :: string
  used_model :: string

text \<open>
  \<^verbatim>\<open>const status = error.status || error.statusCode || 500\<close>
\<close>

definition error_status :: "error \<Rightarrow> int" where
  "error_status e = number_or (error.status e) (number_or (error.statusCode e) 500)"

text \<open>The condition of the source's \<^verbatim>\<open>if\<close> that switches to the next model.\<close>

definition switches :: "int \<Rightarrow> bool" where
  "switches st \<longleftrightarrow> st = 429 \<or> st = 404 \<or> st = 400 \<or> (st \<ge> 500 \<and> st < 600)"

definition request :: "'p \<Rightarrow> string \<Rightarrow> 'p chat_request" where
  "request prompt currentModel =
     \<lparr>messages = [(''user'', prompt)],
      model = currentModel,
      temperature = 8 / 10,
      max_tokens = 4096\<rparr>"

text \<open>\<^verbatim>\<open>chatCompletion.choices[0]?.message?.content || ""\<close>\<close>

definition completion_text :: "chat_completion \<Rightarrow> string" where
  "completion_text c =
     (case choices c of
        [] \<Rightarrow> []
      | ch # _ \<Rightarrow>
          (case choice.message ch of
             None \<Rightarrow> []
           | Some m \<Rightarrow> string_or (content m) []))"

definition exhausted :: error where
  "exhausted =
     Error ''All AI models failed due to rate limits, server errors, or invalid model names.''"

text \<open>
  The source reads the global \<^verbatim>\<open>MODELS\<close>; here the list is the first argument,
  and the handler passes \<^const>\<open>MODELS\<close>. The result is the effects of the run
  and what it returns (\<open>Inr\<close>) or throws (\<open>Inl\<close>).
\<close>

function generateWithFallback ::
  "string list \<Rightarrow> 'p provider \<Rightarrow> 'p \<Rightarrow> nat \<Rightarrow> 'p effect list \<times> (error + generation)"
where
  "generateWithFallback models provider prompt index =
     (if index \<ge> length models then ([], Inl exhausted)
      else
        let currentModel = models ! index;
            attempt =
              [Log_Attempt (index + 1) (length models) currentModel,
               Create (request prompt currentModel)]
        in case provider index (request prompt currentModel) of
             Inr chatCompletion \<Rightarrow>
               (attempt,
                Inr \<lparr>result = completion_text chatCompletion, used_model = currentModel\<rparr>)
           | Inl error \<Rightarrow>
               let st = error_status error;
                   failed = attempt @ [Warn_Fail currentModel st (error.message error)]
               in if switches st then
                    (case generateWithFallback models provider prompt (index + 1) of
                       (rest, r) \<Rightarrow> (failed @ [Log_Switching] @ rest, r))
                  else (failed, Inl error))"
  by pat_completeness auto
termination
  by (relation "measure (\<lambda>(models, provider, prompt, index). length models - index)") auto

declare generateWithFallback.simps [simp del]

text \<open>The requests sent to the provider during a run, in order.\<close>

fun created :: "'p effect list \<Rightarrow> 'p chat_request list" where
  "created [] = []"
| "created (Create r # es) = r # created es"
| "created (e # es) = created es"

text \<open>The candidates attempted during a run, in order: the model of each request sent.\<close>

definition attempted :: "'p effect list \<Rightarrow> string list" where
  "attempted effects = map model (created effects)"

section \<open>The request adapter\<close>

record event =
  httpMethod :: string
  body :: "string option"

text \<open>
  The body of a response is a literal text or the text \<^verbatim>\<open>JSON.stringify\<close> makes
  of a value; the latter is kept as the value.
\<close>

datatype body_text = Text string | JSON_stringify json

record response =
  statusCode :: nat
  headers :: "(string \<times> string) list"
  body :: body_text

text \<open>
  \<^verbatim>\<open>body.prompt\<close> on a parsed value. Reading a property of \<^verbatim>\<open>null\<close> throws a
  TypeError (the message is the one of Node.js); an object gives its own
  property or \<^verbatim>\<open>undefined\<close>; a boolean, number, string or array has no
  property of that name.
\<close>

definition TypeError_prompt_of_null :: error where
  "TypeError_prompt_of_null = Error ''Cannot read properties of null (reading 'prompt')''"

fun get_prompt :: "json \<Rightarrow> error + json option" where
  "get_prompt JNull = Inl TypeError_prompt_of_null"
| "get_prompt (JObject kvs) = Inr (map_of kvs ''prompt'')"
| "get_prompt v = Inr None"

definition error_response :: "nat \<Rightarrow> string \<Rightarrow> response" where
  "error_response code msg =
     \<lparr>statusCode = code,
      headers = CORS_HEADERS,
      body = JSON_stringify (JObject [(''error'', JString msg)])\<rparr>"

text \<open>
  The body of the handler's \<^verbatim>\<open>try\<close>: a response returned (\<open>Inr\<close>) or an
  exception that reaches the \<^verbatim>\<open>catch\<close> (\<open>Inl\<close>). \<open>JSON_parse\<close> is the runtime's
  \<^verbatim>\<open>JSON.parse\<close>, \<open>None\<close> where it throws.
\<close>

definition handler_try ::
  "(string \<Rightarrow> json option) \<Rightarrow> json option provider \<Rightarrow> event \<Rightarrow>
     json option effect list \<times> (error + response)"
where
  "handler_try JSON_parse provider ev =
     (case event.body ev of
        None \<Rightarrow> ([], Inr (error_response 400 ''Request body is empty.''))
      | Some payload \<Rightarrow>
          if payload = [] then ([], Inr (error_response 400 ''Request body is empty.''))
          else
            (case JSON_parse payload of
               None \<Rightarrow> ([], Inr (error_response 400 ''Invalid JSON in request body.''))
             | Some parsed \<Rightarrow>
                 (case get_prompt parsed of
                    Inl e \<Rightarrow> ([], Inl e)
                  | Inr prompt \<Rightarrow>
                      if \<not> truthy prompt then
                        ([], Inr (error_response 400 ''Missing 'prompt' in request body.''))
                      else
                        (case generateWithFallback MODELS provider prompt 0 of
                           (effects, Inl e) \<Rightarrow> (effects, Inl e)
                         | (effects, Inr g) \<Rightarrow>
                             (effects,
                              Inr \<lparr>statusCode = 200,
                                   headers = CORS_HEADERS,
                                   body = JSON_stringify
                                     (JObject [(''result'', JString (result g)),
                                               (''used_model'', JString (used_model g))])\<rparr>)))))"

definition handler ::
  "(string \<Rightarrow> json option) \<Rightarrow> json option provider \<Rightarrow> event \<Rightarrow>
     json option effect list \<times> response"
where
  "handler JSON_parse provider ev =
     (if httpMethod ev = ''OPTIONS'' then
        ([], \<lparr>statusCode = 200, headers = CORS_HEADERS, body = Text ''OK''\<rparr>)
      else if httpMethod ev \<noteq> ''POST'' then
        ([], error_response 405 ''Method Not Allowed. Use POST.'')
      else
        (case handler_try JSON_parse provider ev of
           (effects, Inr r) \<Rightarrow> (effects, r)
         | (effects, Inl e) \<Rightarrow>
             (effects @ [Error_Critical e],
              \<lparr>statusCode = 500,
               headers = CORS_HEADERS,
               body = JSON_stringify
                 (JObject [(''error'', JString (string_or (error.message e) ''Internal Server Error'')),
                           (''details'', JString ''Global failure across all available models.'')])\<rparr>)))"

section \<open>One step of the orchestrator\<close>

lemma gwf_past_end:
  "length models \<le> index \<Longrightarrow> generateWithFallback models provider prompt index = ([], Inl exhausted)"
  by (simp add: generateWithFallback.simps)

lemma gwf_success:
  assumes "index < length models"
    and "provider index (request prompt (models ! index)) = Inr c"
  shows "generateWithFallback models provider prompt index =
    ([Log_Attempt (index + 1) (length models) (models ! index), Create (request prompt (models ! index))],
     Inr \<lparr>result = completion_text c, used_model = models ! index\<rparr>)"
  using assms by (subst generateWithFallback.simps) (simp add: Let_def)

lemma gwf_switch:
  assumes "index < length models"
    and "provider index (request prompt (models ! index)) = Inl e"
    and "switches (error_status e)"
  shows "generateWithFallback models provider prompt index =
    ([Log_Attempt (index + 1) (length models) (models ! index), Create (request prompt (models ! index)),
      Warn_Fail (models ! index) (error_status e) (error.message e), Log_Switching]
       @ fst (generateWithFallback models provider prompt (index + 1)),
     snd (generateWithFallback models provider prompt (index + 1)))"
  using assms by (subst generateWithFallback.simps) (simp add: Let_def split_beta)

lemma gwf_fatal:
  assumes "index < length models"
    and "provider index (request prompt (models ! index)) = Inl e"
    and "\<not> switches (error_status e)"
  shows "generateWithFallback models provider prompt index =
    ([Log_Attempt (index + 1) (length models) (models ! index), Create (request prompt (models ! index)),
      Warn_Fail (models ! index) (error_status e) (error.message e)],
     Inl e)"
  using assms by (subst generateWithFallback.simps) (simp add: Let_def)

lemma model_request: "model (request prompt m) = m"
  by (simp add: request_def)

lemma created_prefix:
  assumes "k < length models"
    and "\<forall>i<k. \<exists>e. provider i (request prompt (models ! i)) = Inl e \<and> switches (error_status e)"
    and "provider k (request prompt (models ! k)) = Inr c"
    and "j \<le> k"
  shows "generateWithFallback models provider prompt (k - j) =
           (fst (generateWithFallback models provider prompt (k - j)),
            Inr \<lparr>result = completion_text c, used_model = models ! k\<rparr>)
         \<and> created (fst (generateWithFallback models provider prompt (k - j))) =
             map (request prompt) (drop (k - j) (take (Suc k) models))"
  using assms(4)
proof (induction j)
  case 0
  have "drop k (take (Suc k) models) = [models ! k]"
    using assms(1) by (simp add: take_Suc_conv_app_nth)
  then show ?case
    using gwf_success [of k models provider prompt c] assms(1,3) by simp
next
  case (Suc j)
  let ?i = "k - Suc j"
  have i: "?i < k" "?i < length models" "?i + 1 = k - j"
    using Suc.prems assms(1) by auto
  obtain e where e: "provider ?i (request prompt (models ! ?i)) = Inl e" "switches (error_status e)"
    using assms(2) i(1) by blast
  have d: "drop ?i (take (Suc k) models) = models ! ?i # drop (k - j) (take (Suc k) models)"
    using i by (metis Cons_nth_drop_Suc Suc_eq_plus1 length_take less_Suc_eq min_less_iff_conj nth_take)
  show ?case
    using gwf_switch [of ?i models provider prompt e] i(2) e Suc.IH Suc.prems i(3) d
    by (simp add: prod_eq_iff)
qed

lemma step_cases:
  assumes "index < length models"
  obtains
    (success) c where "provider index (request prompt (models ! index)) = Inr c"
  | (switch) e where "provider index (request prompt (models ! index)) = Inl e"
      and "switches (error_status e)"
  | (fatal) e where "provider index (request prompt (models ! index)) = Inl e"
      and "\<not> switches (error_status e)"
  by (cases "provider index (request prompt (models ! index))") auto

lemma created_all_switch:
  assumes "\<forall>i<length models. \<exists>e. provider i (request prompt (models ! i)) = Inl e \<and> switches (error_status e)"
    and "j \<le> length models"
  shows "snd (generateWithFallback models provider prompt (length models - j)) = Inl exhausted
         \<and> created (fst (generateWithFallback models provider prompt (length models - j))) =
             map (request prompt) (drop (length models - j) models)"
  using assms(2)
proof (induction j)
  case 0
  then show ?case by (simp add: gwf_past_end)
next
  case (Suc j)
  let ?i = "length models - Suc j"
  have i: "?i < length models" "?i + 1 = length models - j"
    using Suc.prems by auto
  obtain e where e: "provider ?i (request prompt (models ! ?i)) = Inl e" "switches (error_status e)"
    using assms(1) i(1) by blast
  have d: "drop ?i models = models ! ?i # drop (length models - j) models"
    using i by (metis Cons_nth_drop_Suc Suc_eq_plus1)
  show ?case
    using gwf_switch [of ?i models provider prompt e] i e Suc.IH Suc.prems d
    by simp
qed

lemma created_take_drop:
  "\<exists>n. created (fst (generateWithFallback models provider prompt index)) =
         map (request prompt) (take n (drop index models))"
proof (induction "length models - index" arbitrary: index)
  case 0
  then show ?case by (simp add: gwf_past_end)
next
  case (Suc d)
  then have lt: "index < length models" by simp
  have dr: "drop index models = models ! index # drop (Suc index) models"
    using lt by (simp add: Cons_nth_drop_Suc)
  from lt show ?case
  proof (cases rule: step_cases [where provider = provider and prompt = prompt])
    case (success c)
    have "created (fst (generateWithFallback models provider prompt index)) =
            map (request prompt) (take 1 (drop index models))"
      using gwf_success [of index models provider prompt c] lt success dr by simp
    then show ?thesis by blast
  next
    case (switch e)
    have "d = length models - (index + 1)" using Suc.hyps(2) by simp
    then obtain n where n: "created (fst (generateWithFallback models provider prompt (index + 1))) =
        map (request prompt) (take n (drop (index + 1) models))"
      using Suc.hyps(1) by blast
    have "created (fst (generateWithFallback models provider prompt index)) =
            map (request prompt) (take (Suc n) (drop index models))"
      using gwf_switch [of index models provider prompt e] lt switch dr n by simp
    then show ?thesis by blast
  next
    case (fatal e)
    have "created (fst (generateWithFallback models provider prompt index)) =
            map (request prompt) (take 1 (drop index models))"
      using gwf_fatal [of index models provider prompt e] lt fatal dr by simp
    then show ?thesis by blast
  qed
qed

lemma thrown_is_exhausted_or_fatal:
  assumes "snd (generateWithFallback models provider prompt index) = Inl e'"
  shows "e' = exhausted \<or>
         (\<exists>i<length models. index \<le> i \<and> provider i (request prompt (models ! i)) = Inl e' \<and>
            \<not> switches (error_status e'))"
  using assms
proof (induction "length models - index" arbitrary: index)
  case 0
  then show ?case by (simp add: gwf_past_end)
next
  case (Suc d)
  then have lt: "index < length models" by simp
  from lt show ?case
  proof (cases rule: step_cases [where provider = provider and prompt = prompt])
    case (success c)
    then show ?thesis
      using gwf_success [of index models provider prompt c] lt Suc.prems by simp
  next
    case (switch e)
    have "d = length models - (index + 1)" using Suc.hyps(2) by simp
    moreover have "snd (generateWithFallback models provider prompt (index + 1)) = Inl e'"
      using gwf_switch [of index models provider prompt e] lt switch Suc.prems by simp
    ultimately have "e' = exhausted \<or>
         (\<exists>i<length models. index + 1 \<le> i \<and> provider i (request prompt (models ! i)) = Inl e' \<and>
            \<not> switches (error_status e'))"
      using Suc.hyps(1) by blast
    then show ?thesis by auto
  next
    case (fatal e)
    have "e' = e"
      using gwf_fatal [of index models provider prompt e] lt fatal Suc.prems by simp
    then show ?thesis using fatal lt by auto
  qed
qed

section \<open>Properties of the orchestrator\<close>

text \<open>
  C1. For every candidate list, prompt and \<open>k\<close> below the length of the list: when
  the provider fails with a status that switches models at each index below
  \<open>k\<close> and succeeds at index \<open>k\<close>, the run returns the text of that completion
  with \<open>used_model\<close> the candidate at index \<open>k\<close>, and it has sent exactly the
  \<open>k + 1\<close> requests for the candidates at indices \<open>0..k\<close>, in the order of the
  list; nothing is sent after the first success.
\<close>

theorem first_success_is_returned:
  assumes "k < length models"
    and "\<forall>i<k. \<exists>e. provider i (request prompt (models ! i)) = Inl e \<and> switches (error_status e)"
    and "provider k (request prompt (models ! k)) = Inr c"
  shows "snd (generateWithFallback models provider prompt 0) =
           Inr \<lparr>result = completion_text c, used_model = models ! k\<rparr>
         \<and> created (fst (generateWithFallback models provider prompt 0)) =
             map (request prompt) (take (Suc k) models)
         \<and> attempted (fst (generateWithFallback models provider prompt 0)) = take (Suc k) models
         \<and> length (attempted (fst (generateWithFallback models provider prompt 0))) = k + 1"
proof -
  let ?run = "generateWithFallback models provider prompt 0"
  have run: "?run = (fst ?run, Inr \<lparr>result = completion_text c, used_model = models ! k\<rparr>)"
    and sent: "created (fst ?run) = map (request prompt) (take (Suc k) models)"
    using created_prefix [of k models provider prompt c k] assms by simp_all
  have "snd ?run = Inr \<lparr>result = completion_text c, used_model = models ! k\<rparr>"
    by (subst run) simp
  moreover have "attempted (fst ?run) = take (Suc k) models"
    by (simp add: attempted_def sent model_request comp_def)
  moreover have "length (take (Suc k) models) = k + 1"
    using assms(1) by simp
  ultimately show ?thesis
    using sent by simp
qed

theorem first_success_is_returned_witness:
  "snd (generateWithFallback MODELS
         (\<lambda>i r. if i < 2
            then Inl \<lparr>status = Some 429, statusCode = None, message = Some ''Rate limit reached''\<rparr>
            else Inr \<lparr>choices = [\<lparr>message = Some \<lparr>content = Some ''Hello''\<rparr>\<rparr>]\<rparr>)
         ''Say hello'' 0) =
     Inr \<lparr>result = ''Hello'', used_model = ''llama-3.3-70b-versatile''\<rparr>
   \<and> attempted (fst (generateWithFallback MODELS
         (\<lambda>i r. if i < 2
            then Inl \<lparr>status = Some 429, statusCode = None, message = Some ''Rate limit reached''\<rparr>
            else Inr \<lparr>choices = [\<lparr>message = Some \<lparr>content = Some ''Hello''\<rparr>\<rparr>]\<rparr>)
         ''Say hello'' 0)) =
     [''openai/gpt-oss-120b'', ''openai/gpt-oss-20b'', ''llama-3.3-70b-versatile'']"
proof -
  let ?p = "\<lambda>(i::nat) (r::string chat_request). if i < 2
            then Inl \<lparr>status = Some 429, statusCode = None, message = Some ''Rate limit reached''\<rparr>
            else Inr \<lparr>choices = [\<lparr>message = Some \<lparr>content = Some ''Hello''\<rparr>\<rparr>]\<rparr>"
  let ?c = "\<lparr>choices = [\<lparr>message = Some \<lparr>content = Some ''Hello''\<rparr>\<rparr>]\<rparr>"
  have len: "2 < length MODELS"
    by (simp add: MODELS_def)
  have fails: "\<forall>i<2. \<exists>e. ?p i (request ''Say hello'' (MODELS ! i)) = Inl e \<and> switches (error_status e)"
    by (simp add: error_status_def switches_def)
  have ok: "?p 2 (request ''Say hello'' (MODELS ! 2)) = Inr ?c"
    by simp
  have hello: "completion_text ?c = ''Hello''"
    by (simp add: completion_text_def)
  have third: "MODELS ! 2 = ''llama-3.3-70b-versatile''"
    and first3: "take (Suc 2) MODELS =
      [''openai/gpt-oss-120b'', ''openai/gpt-oss-20b'', ''llama-3.3-70b-versatile'']"
    by (simp_all add: MODELS_def)
  have "snd (generateWithFallback MODELS ?p ''Say hello'' 0) =
          Inr \<lparr>result = completion_text ?c, used_model = MODELS ! 2\<rparr>"
    and "attempted (fst (generateWithFallback MODELS ?p ''Say hello'' 0)) = take (Suc 2) MODELS"
    using first_success_is_returned [of 2 MODELS ?p "''Say hello''" ?c, OF len fails ok]
    by blast+
  then show ?thesis
    unfolding hello third first3 by blast
qed

text \<open>
  C3. For every candidate list of length \<open>N\<close> and every prompt: when the
  provider fails at every index with a status that switches models, the run
  throws the exhaustion error after exactly \<open>N\<close> requests, one per candidate in
  the order of the list, and the message of that error says that all models
  failed due to rate limits, server errors, or invalid model names.
\<close>

theorem all_fail_is_exhaustion:
  assumes "\<forall>i<length models. \<exists>e. provider i (request prompt (models ! i)) = Inl e \<and>
             switches (error_status e)"
  shows "snd (generateWithFallback models provider prompt 0) = Inl exhausted
         \<and> attempted (fst (generateWithFallback models provider prompt 0)) = models
         \<and> length (created (fst (generateWithFallback models provider prompt 0))) = length models
         \<and> error.message exhausted =
             Some ''All AI models failed due to rate limits, server errors, or invalid model names.''"
proof -
  let ?run = "generateWithFallback models provider prompt 0"
  have thrown: "snd ?run = Inl exhausted"
    and sent: "created (fst ?run) = map (request prompt) models"
    using created_all_switch [of models provider prompt "length models"] assms by simp_all
  have "attempted (fst ?run) = models"
    by (simp add: attempted_def sent model_request comp_def)
  moreover have "error.message exhausted =
      Some ''All AI models failed due to rate limits, server errors, or invalid model names.''"
    by (simp add: exhausted_def Error_def)
  ultimately show ?thesis
    using thrown sent by simp
qed

theorem all_fail_is_exhaustion_witness:
  "snd (generateWithFallback MODELS
         (\<lambda>i r. Inl \<lparr>status = Some 500, statusCode = None, message = Some ''Internal error''\<rparr>)
         ''Say hello'' 0) = Inl exhausted
   \<and> length (created (fst (generateWithFallback MODELS
         (\<lambda>i r. Inl \<lparr>status = Some 500, statusCode = None, message = Some ''Internal error''\<rparr>)
         ''Say hello'' 0))) = 4"
proof -
  let ?p = "\<lambda>(i::nat) (r::string chat_request).
     (Inl \<lparr>status = Some 500, statusCode = None, message = Some ''Internal error''\<rparr>
        :: error + chat_completion)"
  have fails: "\<forall>i<length MODELS. \<exists>e. ?p i (request ''Say hello'' (MODELS ! i)) = Inl e \<and>
      switches (error_status e)"
    by (simp add: error_status_def switches_def)
  have four: "length MODELS = 4"
    by (simp add: MODELS_def)
  show ?thesis
    using all_fail_is_exhaustion [of MODELS ?p "''Say hello''", OF fails]
    by (simp add: four)
qed

text \<open>
  C4. For every candidate list, prompt and provider behaviour: the candidates
  a run attempts are the first \<open>n\<close> entries of the list for some \<open>n\<close>, one
  request each, in the order of the list from index 0. So every attempted
  candidate is an entry of the list, no index is attempted twice, and when the
  entries of the list are distinct (as those of \<open>MODELS\<close> are) no candidate is
  attempted twice.
\<close>

theorem attempts_are_a_prefix:
  "(\<exists>n\<le>length models.
      created (fst (generateWithFallback models provider prompt 0)) =
        map (request prompt) (take n models)
      \<and> attempted (fst (generateWithFallback models provider prompt 0)) = take n models)
   \<and> set (attempted (fst (generateWithFallback models provider prompt 0))) \<subseteq> set models
   \<and> (distinct models \<longrightarrow>
        distinct (attempted (fst (generateWithFallback models provider prompt 0))))
   \<and> distinct MODELS"
proof -
  let ?run = "generateWithFallback models provider prompt 0"
  obtain n where n: "created (fst ?run) = map (request prompt) (take n models)"
    using created_take_drop [of models provider prompt 0] by auto
  let ?m = "min n (length models)"
  have m: "?m \<le> length models"
    by simp
  have tk: "take n models = take ?m models"
  proof (cases "n \<le> length models")
    case True
    then show ?thesis by (simp add: min_def)
  next
    case False
    then show ?thesis by (simp add: min_def)
  qed
  have sent: "created (fst ?run) = map (request prompt) (take ?m models)"
    using n tk by simp
  have "attempted (fst ?run) = take n models"
    by (simp add: attempted_def n model_request comp_def)
  then have att: "attempted (fst ?run) = take ?m models"
    by (subst tk [symmetric])
  have "set (attempted (fst ?run)) \<subseteq> set models"
    unfolding att by (rule set_take_subset)
  moreover have "distinct models \<longrightarrow> distinct (attempted (fst ?run))"
    unfolding att by simp
  moreover have "distinct MODELS"
    by (simp add: MODELS_def)
  ultimately show ?thesis
    using m sent att by blast
qed

theorem attempts_are_a_prefix_witness:
  "distinct (attempted (fst (generateWithFallback MODELS
      (\<lambda>i r. if i < 1
         then Inl \<lparr>status = Some 404, statusCode = None, message = Some ''Model not found''\<rparr>
         else Inl \<lparr>status = Some 401, statusCode = None, message = Some ''Invalid API key''\<rparr>)
      ''Say hello'' 0)))
   \<and> set (attempted (fst (generateWithFallback MODELS
      (\<lambda>i r. if i < 1
         then Inl \<lparr>status = Some 404, statusCode = None, message = Some ''Model not found''\<rparr>
         else Inl \<lparr>status = Some 401, statusCode = None, message = Some ''Invalid API key''\<rparr>)
      ''Say hello'' 0))) \<subseteq> set MODELS"
proof -
  let ?p = "\<lambda>(i::nat) (r::string chat_request). if i < 1
         then (Inl \<lparr>status = Some 404, statusCode = None, message = Some ''Model not found''\<rparr>
                 :: error + chat_completion)
         else Inl \<lparr>status = Some 401, statusCode = None, message = Some ''Invalid API key''\<rparr>"
  have d: "distinct MODELS"
    by (simp add: MODELS_def)
  show ?thesis
    using attempts_are_a_prefix [where models = MODELS and provider = ?p and prompt = "''Say hello''"] d
    by blast
qed

text \<open>
  C2. An error the provider throws at an attempt is classified by the status
  the source computes from it, and by nothing else. When that status is 400,
  404, 429 or lies in 500..599, the run continues with the next index: what it
  returns or throws is what the run from the next index returns or throws.
  For any other status (401, say) the run throws that same error at once and
  sends no further request, whatever a later candidate would have answered.
  Hence whatever a whole run throws is the exhaustion error or an error of
  the second kind: an error of the first kind never surfaces.
\<close>

theorem status_decides_switch_or_throw:
  assumes "index < length models"
    and "provider index (request prompt (models ! index)) = Inl e"
  shows "((error_status e \<in> {400, 404, 429} \<or> (500 \<le> error_status e \<and> error_status e \<le> 599)) \<longrightarrow>
            generateWithFallback models provider prompt index =
              ([Log_Attempt (index + 1) (length models) (models ! index),
                Create (request prompt (models ! index)),
                Warn_Fail (models ! index) (error_status e) (error.message e),
                Log_Switching]
                 @ fst (generateWithFallback models provider prompt (index + 1)),
               snd (generateWithFallback models provider prompt (index + 1))))
         \<and> (\<not> (error_status e \<in> {400, 404, 429} \<or> (500 \<le> error_status e \<and> error_status e \<le> 599)) \<longrightarrow>
            generateWithFallback models provider prompt index =
              ([Log_Attempt (index + 1) (length models) (models ! index),
                Create (request prompt (models ! index)),
                Warn_Fail (models ! index) (error_status e) (error.message e)],
               Inl e)
            \<and> created (fst (generateWithFallback models provider prompt index)) =
                [request prompt (models ! index)])
         \<and> (\<forall>e'. snd (generateWithFallback models provider prompt 0) = Inl e' \<longrightarrow>
               e' = exhausted \<or>
               (\<exists>i<length models. provider i (request prompt (models ! i)) = Inl e' \<and>
                  \<not> (error_status e' \<in> {400, 404, 429} \<or>
                     (500 \<le> error_status e' \<and> error_status e' \<le> 599))))"
proof -
  have sw: "switches st \<longleftrightarrow> st \<in> {400, 404, 429} \<or> (500 \<le> st \<and> st \<le> 599)" for st
    by (auto simp: switches_def)
  have "switches (error_status e) \<longrightarrow>
          generateWithFallback models provider prompt index =
            ([Log_Attempt (index + 1) (length models) (models ! index),
              Create (request prompt (models ! index)),
              Warn_Fail (models ! index) (error_status e) (error.message e),
              Log_Switching]
               @ fst (generateWithFallback models provider prompt (index + 1)),
             snd (generateWithFallback models provider prompt (index + 1)))"
    using gwf_switch [of index models provider prompt e] assms by blast
  moreover have "\<not> switches (error_status e) \<longrightarrow>
          generateWithFallback models provider prompt index =
            ([Log_Attempt (index + 1) (length models) (models ! index),
              Create (request prompt (models ! index)),
              Warn_Fail (models ! index) (error_status e) (error.message e)],
             Inl e)
          \<and> created (fst (generateWithFallback models provider prompt index)) =
              [request prompt (models ! index)]"
    using gwf_fatal [of index models provider prompt e] assms by simp
  moreover have "\<forall>e'. snd (generateWithFallback models provider prompt 0) = Inl e' \<longrightarrow>
         e' = exhausted \<or>
         (\<exists>i<length models. provider i (request prompt (models ! i)) = Inl e' \<and>
            \<not> switches (error_status e'))"
    using thrown_is_exhausted_or_fatal [of models provider prompt 0] by blast
  ultimately show ?thesis
    unfolding sw by blast
qed

theorem status_decides_switch_or_throw_witness:
  "generateWithFallback MODELS
     (\<lambda>i r. if i = 0
        then Inl \<lparr>status = Some 401, statusCode = None, message = Some ''Invalid API key''\<rparr>
        else Inr \<lparr>choices = [\<lparr>message = Some \<lparr>content = Some ''Hello''\<rparr>\<rparr>]\<rparr>)
     ''Say hello'' 0 =
     ([Log_Attempt 1 4 ''openai/gpt-oss-120b'',
       Create (request ''Say hello'' ''openai/gpt-oss-120b''),
       Warn_Fail ''openai/gpt-oss-120b'' 401 (Some ''Invalid API key'')],
      Inl \<lparr>status = Some 401, statusCode = None, message = Some ''Invalid API key''\<rparr>)
   \<and> (\<lambda>i r. if i = 0
        then Inl \<lparr>status = Some 401, statusCode = None, message = Some ''Invalid API key''\<rparr>
        else Inr \<lparr>choices = [\<lparr>message = Some \<lparr>content = Some ''Hello''\<rparr>\<rparr>]\<rparr>)
       (1 :: nat) (request ''Say hello'' ''openai/gpt-oss-20b'') =
     (Inr \<lparr>choices = [\<lparr>message = Some \<lparr>content = Some ''Hello''\<rparr>\<rparr>]\<rparr> :: error + chat_completion)
   \<and> snd (generateWithFallback MODELS
     (\<lambda>i r. if i = 0
        then Inl \<lparr>status = Some 404, statusCode = None, message = Some ''Model not found''\<rparr>
        else Inr \<lparr>choices = [\<lparr>message = Some \<lparr>content = Some ''Hello''\<rparr>\<rparr>]\<rparr>)
     ''Say hello'' 0) =
     snd (generateWithFallback MODELS
     (\<lambda>i r. if i = 0
        then Inl \<lparr>status = Some 404, statusCode = None, message = Some ''Model not found''\<rparr>
        else Inr \<lparr>choices = [\<lparr>message = Some \<lparr>content = Some ''Hello''\<rparr>\<rparr>]\<rparr>)
     ''Say hello'' 1)
   \<and> (\<exists>i<length MODELS.
        (\<lambda>i r. if i = 0
           then Inl \<lparr>status = Some 401, statusCode = None, message = Some ''Invalid API key''\<rparr>
           else Inr \<lparr>choices = [\<lparr>message = Some \<lparr>content = Some ''Hello''\<rparr>\<rparr>]\<rparr>)
          i (request ''Say hello'' (MODELS ! i)) =
        Inl \<lparr>status = Some 401, statusCode = None, message = Some ''Invalid API key''\<rparr>)"
proof -
  let ?ok = "Inr \<lparr>choices = [\<lparr>message = Some \<lparr>content = Some ''Hello''\<rparr>\<rparr>]\<rparr> :: error + chat_completion"
  let ?unauthorized = "\<lparr>status = Some 401, statusCode = None, message = Some ''Invalid API key''\<rparr>"
  let ?notfound = "\<lparr>status = Some 404, statusCode = None, message = Some ''Model not found''\<rparr>"
  let ?p = "\<lambda>(i::nat) (r::string chat_request). if i = 0 then Inl ?unauthorized else ?ok"
  let ?q = "\<lambda>(i::nat) (r::string chat_request). if i = 0 then Inl ?notfound else ?ok"
  have len: "0 < length MODELS" and four: "length MODELS = 4"
    and first: "MODELS ! 0 = ''openai/gpt-oss-120b''"
    by (simp_all add: MODELS_def)
  have first_p: "?p 0 (request ''Say hello'' (MODELS ! 0)) = Inl ?unauthorized"
    and first_q: "?q 0 (request ''Say hello'' (MODELS ! 0)) = Inl ?notfound"
    by simp_all
  have status_p: "error_status ?unauthorized = 401" and status_q: "error_status ?notfound = 404"
    by (simp_all add: error_status_def)
  note at_p = status_decides_switch_or_throw [of 0 MODELS ?p "''Say hello''" ?unauthorized, OF len first_p]
  note at_q = status_decides_switch_or_throw [of 0 MODELS ?q "''Say hello''" ?notfound, OF len first_q]
  have thrown: "generateWithFallback MODELS ?p ''Say hello'' 0 =
     ([Log_Attempt 1 4 ''openai/gpt-oss-120b'',
       Create (request ''Say hello'' ''openai/gpt-oss-120b''),
       Warn_Fail ''openai/gpt-oss-120b'' 401 (Some ''Invalid API key'')],
      Inl ?unauthorized)"
    using at_p by (simp add: status_p four first)
  have later: "?p 1 (request ''Say hello'' ''openai/gpt-oss-20b'') = ?ok"
    by simp
  have switched: "snd (generateWithFallback MODELS ?q ''Say hello'' 0) =
      snd (generateWithFallback MODELS ?q ''Say hello'' 1)"
    using at_q by (simp add: status_q)
  have "?unauthorized \<noteq> exhausted"
    by (simp add: exhausted_def Error_def)
  moreover have "snd (generateWithFallback MODELS ?p ''Say hello'' 0) = Inl ?unauthorized"
    by (subst thrown) simp
  ultimately have surfaced: "\<exists>i<length MODELS.
      ?p i (request ''Say hello'' (MODELS ! i)) = Inl ?unauthorized"
    using at_p by blast
  show ?thesis
    using thrown later switched surfaced by blast
qed

text \<open>
  C5. When the attempt that succeeds returns a completion without message
  content (no choice at all, a first choice without a message, or a message
  whose content is null), the run returns the empty text with \<open>used_model\<close>
  the candidate of that attempt; it does not throw.
\<close>

theorem no_content_is_empty_text:
  assumes "k < length models"
    and "\<forall>i<k. \<exists>e. provider i (request prompt (models ! i)) = Inl e \<and> switches (error_status e)"
    and "provider k (request prompt (models ! k)) = Inr c"
    and "choices c = []
         \<or> (\<exists>ch cs. choices c = ch # cs \<and> choice.message ch = None)
         \<or> (\<exists>ch cs m. choices c = ch # cs \<and> choice.message ch = Some m \<and> content m = None)"
  shows "snd (generateWithFallback models provider prompt 0) =
           Inr \<lparr>result = '''', used_model = models ! k\<rparr>"
proof -
  let ?run = "generateWithFallback models provider prompt 0"
  have empty: "completion_text c = ''''"
    using assms(4) by (auto simp: completion_text_def)
  have run: "?run = (fst ?run, Inr \<lparr>result = completion_text c, used_model = models ! k\<rparr>)"
    using created_prefix [of k models provider prompt c k] assms(1-3) by simp
  show ?thesis
    by (subst run) (simp add: empty)
qed

theorem no_content_is_empty_text_witness:
  "snd (generateWithFallback MODELS
         (\<lambda>i r. if i < 1
            then Inl \<lparr>status = Some 429, statusCode = None, message = Some ''Rate limit reached''\<rparr>
            else Inr \<lparr>choices = [\<lparr>message = Some \<lparr>content = None\<rparr>\<rparr>]\<rparr>)
         ''Say hello'' 0) =
     Inr \<lparr>result = '''', used_model = ''openai/gpt-oss-20b''\<rparr>
   \<and> snd (generateWithFallback MODELS (\<lambda>i r. Inr \<lparr>choices = []\<rparr>) ''Say hello'' 0) =
     Inr \<lparr>result = '''', used_model = ''openai/gpt-oss-120b''\<rparr>
   \<and> snd (generateWithFallback MODELS (\<lambda>i r. Inr \<lparr>choices = [\<lparr>message = None\<rparr>]\<rparr>) ''Say hello'' 0) =
     Inr \<lparr>result = '''', used_model = ''openai/gpt-oss-120b''\<rparr>"
proof -
  let ?c = "\<lparr>choices = [\<lparr>message = Some \<lparr>content = None\<rparr>\<rparr>]\<rparr>"
  let ?p = "\<lambda>(i::nat) (r::string chat_request). if i < 1
            then Inl \<lparr>status = Some 429, statusCode = None, message = Some ''Rate limit reached''\<rparr>
            else Inr ?c"
  let ?ca = "\<lparr>choices = []\<rparr>"
  let ?pa = "\<lambda>(i::nat) (r::string chat_request). (Inr ?ca :: error + chat_completion)"
  let ?cb = "\<lparr>choices = [\<lparr>message = None\<rparr>]\<rparr>"
  let ?pb = "\<lambda>(i::nat) (r::string chat_request). (Inr ?cb :: error + chat_completion)"
  have len: "1 < length MODELS" "0 < length MODELS"
    and second: "MODELS ! 1 = ''openai/gpt-oss-20b''"
    and first: "MODELS ! 0 = ''openai/gpt-oss-120b''"
    by (simp_all add: MODELS_def)
  have fails: "\<forall>i<1. \<exists>e. ?p i (request ''Say hello'' (MODELS ! i)) = Inl e \<and> switches (error_status e)"
  proof (intro allI impI)
    fix i :: nat
    assume "i < 1"
    then have "?p i (request ''Say hello'' (MODELS ! i)) =
        Inl \<lparr>status = Some 429, statusCode = None, message = Some ''Rate limit reached''\<rparr>"
      by simp
    moreover have "switches (error_status
        \<lparr>status = Some 429, statusCode = None, message = Some ''Rate limit reached''\<rparr>)"
      by (simp add: error_status_def switches_def)
    ultimately show "\<exists>e. ?p i (request ''Say hello'' (MODELS ! i)) = Inl e \<and> switches (error_status e)"
      by blast
  qed
  have ok: "?p 1 (request ''Say hello'' (MODELS ! 1)) = Inr ?c"
    by simp
  have none: "choices ?c = []
         \<or> (\<exists>ch cs. choices ?c = ch # cs \<and> choice.message ch = None)
         \<or> (\<exists>ch cs m. choices ?c = ch # cs \<and> choice.message ch = Some m \<and> content m = None)"
    by simp
  have fails0: "\<forall>i<0. \<exists>e. ?pa i (request ''Say hello'' (MODELS ! i)) = Inl e \<and> switches (error_status e)"
    and fails1: "\<forall>i<0. \<exists>e. ?pb i (request ''Say hello'' (MODELS ! i)) = Inl e \<and> switches (error_status e)"
    by simp_all
  have ok0: "?pa 0 (request ''Say hello'' (MODELS ! 0)) = Inr ?ca"
    and ok1: "?pb 0 (request ''Say hello'' (MODELS ! 0)) = Inr ?cb"
    by simp_all
  have none0: "choices ?ca = []
         \<or> (\<exists>ch cs. choices ?ca = ch # cs \<and> choice.message ch = None)
         \<or> (\<exists>ch cs m. choices ?ca = ch # cs \<and> choice.message ch = Some m \<and> content m = None)"
    and none1: "choices ?cb = []
         \<or> (\<exists>ch cs. choices ?cb = ch # cs \<and> choice.message ch = None)
         \<or> (\<exists>ch cs m. choices ?cb = ch # cs \<and> choice.message ch = Some m \<and> content m = None)"
    by simp_all
  have a: "snd (generateWithFallback MODELS ?p ''Say hello'' 0) =
      Inr \<lparr>result = '''', used_model = ''openai/gpt-oss-20b''\<rparr>"
    using no_content_is_empty_text [of 1 MODELS ?p "''Say hello''" ?c, OF len(1) fails ok none]
    unfolding second .
  have b: "snd (generateWithFallback MODELS ?pa ''Say hello'' 0) =
      Inr \<lparr>result = '''', used_model = ''openai/gpt-oss-120b''\<rparr>"
    using no_content_is_empty_text [of 0 MODELS ?pa "''Say hello''" ?ca, OF len(2) fails0 ok0 none0]
    unfolding first .
  have c: "snd (generateWithFallback MODELS ?pb ''Say hello'' 0) =
      Inr \<lparr>result = '''', used_model = ''openai/gpt-oss-120b''\<rparr>"
    using no_content_is_empty_text [of 0 MODELS ?pb "''Say hello''" ?cb, OF len(2) fails1 ok1 none1]
    unfolding first .
  show ?thesis
    using a b c by blast
qed

text \<open>
  C9. An error that carries no truthy status (\<open>status\<close> absent or 0, and
  \<open>statusCode\<close> absent or 0) gets the status 500, which switches models: the
  run continues with the next index instead of throwing the error. The run
  throws the error of an attempt at once only when one of the two attributes
  holds a non-zero status, the one the source computes, that is none of 400,
  404, 429 and lies outside 500..599.
\<close>

theorem missing_status_counts_as_500:
  assumes "index < length models"
    and "provider index (request prompt (models ! index)) = Inl e"
  shows "((error.status e = None \<or> error.status e = Some 0) \<and>
          (error.statusCode e = None \<or> error.statusCode e = Some 0) \<longrightarrow>
            error_status e = 500
            \<and> generateWithFallback models provider prompt index =
              ([Log_Attempt (index + 1) (length models) (models ! index),
                Create (request prompt (models ! index)),
                Warn_Fail (models ! index) 500 (error.message e),
                Log_Switching]
                 @ fst (generateWithFallback models provider prompt (index + 1)),
               snd (generateWithFallback models provider prompt (index + 1))))
         \<and> (generateWithFallback models provider prompt index =
              ([Log_Attempt (index + 1) (length models) (models ! index),
                Create (request prompt (models ! index)),
                Warn_Fail (models ! index) (error_status e) (error.message e)],
               Inl e) \<longrightarrow>
              (\<exists>s. s \<noteq> 0 \<and> (error.status e = Some s \<or> error.statusCode e = Some s) \<and>
                   error_status e = s \<and>
                   s \<notin> {400, 404, 429} \<and> \<not> (500 \<le> s \<and> s \<le> 599)))"
proof -
  let ?falsy = "(error.status e = None \<or> error.status e = Some 0) \<and>
                (error.statusCode e = None \<or> error.statusCode e = Some 0)"
  let ?at_once = "generateWithFallback models provider prompt index =
              ([Log_Attempt (index + 1) (length models) (models ! index),
                Create (request prompt (models ! index)),
                Warn_Fail (models ! index) (error_status e) (error.message e)],
               Inl e)"
  have substituted: "error_status e = 500" "switches (error_status e)" if ?falsy
    using that by (auto simp: error_status_def switches_def)
  have advance: "generateWithFallback models provider prompt index =
              ([Log_Attempt (index + 1) (length models) (models ! index),
                Create (request prompt (models ! index)),
                Warn_Fail (models ! index) 500 (error.message e),
                Log_Switching]
                 @ fst (generateWithFallback models provider prompt (index + 1)),
               snd (generateWithFallback models provider prompt (index + 1)))"
    if ?falsy
    using gwf_switch [of index models provider prompt e] assms substituted [OF that] by simp
  have not_switching: "\<not> switches (error_status e)" if ?at_once
  proof
    assume "switches (error_status e)"
    then have "length (fst (generateWithFallback models provider prompt index)) \<ge> 4"
      using gwf_switch [of index models provider prompt e] assms by simp
    moreover have "length (fst (generateWithFallback models provider prompt index)) = 3"
      by (subst that) simp
    ultimately show False
      by simp
  qed
  have explicit: "\<exists>s. s \<noteq> 0 \<and> (error.status e = Some s \<or> error.statusCode e = Some s) \<and>
                   error_status e = s \<and>
                   s \<notin> {400, 404, 429} \<and> \<not> (500 \<le> s \<and> s \<le> 599)"
    if "\<not> switches (error_status e)"
  proof (cases "error.status e")
    case None
    show ?thesis
    proof (cases "error.statusCode e")
      case None
      with \<open>error.status e = None\<close> that show ?thesis
        by (simp add: error_status_def switches_def)
    next
      case (Some t)
      with \<open>error.status e = None\<close> that show ?thesis
        by (auto simp: error_status_def switches_def split: if_splits)
    qed
  next
    case (Some s)
    show ?thesis
    proof (cases "error.statusCode e")
      case None
      with Some that show ?thesis
        by (auto simp: error_status_def switches_def split: if_splits)
    next
      case (Some t)
      with \<open>error.status e = Some s\<close> that show ?thesis
        by (auto simp: error_status_def switches_def split: if_splits)
    qed
  qed
  show ?thesis
    using substituted(1) advance not_switching explicit by blast
qed

theorem missing_status_counts_as_500_witness:
  "snd (generateWithFallback MODELS
     (\<lambda>i r. if i = 0
        then Inl \<lparr>status = None, statusCode = None, message = Some ''fetch failed''\<rparr>
        else Inr \<lparr>choices = [\<lparr>message = Some \<lparr>content = Some ''Hello''\<rparr>\<rparr>]\<rparr>)
     ''Say hello'' 0) =
   snd (generateWithFallback MODELS
     (\<lambda>i r. if i = 0
        then Inl \<lparr>status = None, statusCode = None, message = Some ''fetch failed''\<rparr>
        else Inr \<lparr>choices = [\<lparr>message = Some \<lparr>content = Some ''Hello''\<rparr>\<rparr>]\<rparr>)
     ''Say hello'' 1)
   \<and> (\<exists>s. s \<noteq> 0 \<and> Some 403 = Some s \<and>
          error_status \<lparr>status = Some 0, statusCode = Some 403, message = Some ''Forbidden''\<rparr> = s)"
proof -
  let ?ok = "Inr \<lparr>choices = [\<lparr>message = Some \<lparr>content = Some ''Hello''\<rparr>\<rparr>]\<rparr> :: error + chat_completion"
  let ?nostatus = "\<lparr>status = None, statusCode = None, message = Some ''fetch failed''\<rparr>"
  let ?forbidden = "\<lparr>status = Some 0, statusCode = Some 403, message = Some ''Forbidden''\<rparr>"
  let ?p = "\<lambda>(i::nat) (r::string chat_request). if i = 0 then Inl ?nostatus else ?ok"
  let ?q = "\<lambda>(i::nat) (r::string chat_request). (Inl ?forbidden :: error + chat_completion)"
  have len: "0 < length MODELS"
    by (simp add: MODELS_def)
  have first_p: "?p 0 (request ''Say hello'' (MODELS ! 0)) = Inl ?nostatus"
    and first_q: "?q 0 (request ''Say hello'' (MODELS ! 0)) = Inl ?forbidden"
    by simp_all
  have "\<not> switches (error_status ?forbidden)"
    by (simp add: error_status_def switches_def)
  then have at_once: "generateWithFallback MODELS ?q ''Say hello'' 0 =
      ([Log_Attempt (0 + 1) (length MODELS) (MODELS ! 0),
        Create (request ''Say hello'' (MODELS ! 0)),
        Warn_Fail (MODELS ! 0) (error_status ?forbidden) (error.message ?forbidden)],
       Inl ?forbidden)"
    using len by (intro gwf_fatal) simp_all
  have "snd (generateWithFallback MODELS ?p ''Say hello'' 0) =
      snd (generateWithFallback MODELS ?p ''Say hello'' 1)"
    using missing_status_counts_as_500 [of 0 MODELS ?p "''Say hello''" ?nostatus, OF len first_p]
    by simp
  moreover have "\<exists>s. s \<noteq> 0 \<and> Some 403 = Some s \<and> error_status ?forbidden = s"
    using missing_status_counts_as_500 [of 0 MODELS ?q "''Say hello''" ?forbidden, OF len first_q]
      at_once
    by auto
  ultimately show ?thesis
    by blast
qed

section \<open>Properties of the request adapter\<close>

lemma handler_try_reaches_orchestrator:
  assumes "event.body ev = Some payload"
    and "payload \<noteq> []"
    and "JSON_parse payload = Some parsed"
    and "get_prompt parsed = Inr prompt"
    and "truthy prompt"
  shows "handler_try JSON_parse provider ev =
    (case generateWithFallback MODELS provider prompt 0 of
       (effects, Inl e) \<Rightarrow> (effects, Inl e)
     | (effects, Inr g) \<Rightarrow>
         (effects,
          Inr \<lparr>statusCode = 200,
               headers = CORS_HEADERS,
               body = JSON_stringify
                 (JObject [(''result'', JString (result g)),
                           (''used_model'', JString (used_model g))])\<rparr>))"
  using assms by (simp add: handler_try_def)

lemma handler_try_falsy_prompt:
  assumes "event.body ev = Some payload"
    and "payload \<noteq> []"
    and "JSON_parse payload = Some parsed"
    and "get_prompt parsed = Inr prompt"
    and "\<not> truthy prompt"
  shows "handler_try JSON_parse provider ev =
    ([], Inr (error_response 400 ''Missing 'prompt' in request body.''))"
  using assms by (simp add: handler_try_def)

lemma headers_handler_try:
  "snd (handler_try JSON_parse provider ev) = Inr r \<Longrightarrow> headers r = CORS_HEADERS"
  by (auto simp: handler_try_def error_response_def
      split: option.splits if_splits sum.splits prod.splits)

text \<open>
  C6. Once the handler has called the orchestrator, the response is fixed by
  what the orchestrator did. When it returned a generation, the response has
  status 200 and the body is the object with \<open>result\<close> the generated text and
  \<open>used_model\<close> the model. When it threw (the exhaustion error or any other
  error), the response has status 500 and the body is the object with
  \<open>error\<close> the message of the error when it has one that is not empty, and
  \<open>Internal Server Error\<close> otherwise, and with \<open>details\<close> always
  \<open>Global failure across all available models.\<close>
\<close>

theorem outcome_to_envelope:
  assumes "httpMethod ev = ''POST''"
    and "event.body ev = Some payload"
    and "payload \<noteq> []"
    and "JSON_parse payload = Some parsed"
    and "get_prompt parsed = Inr prompt"
    and "truthy prompt"
  shows "(\<forall>g. snd (generateWithFallback MODELS provider prompt 0) = Inr g \<longrightarrow>
            snd (handler JSON_parse provider ev) =
              \<lparr>statusCode = 200,
               headers = CORS_HEADERS,
               body = JSON_stringify
                 (JObject [(''result'', JString (result g)),
                           (''used_model'', JString (used_model g))])\<rparr>)
         \<and> (\<forall>e. snd (generateWithFallback MODELS provider prompt 0) = Inl e \<longrightarrow>
            snd (handler JSON_parse provider ev) =
              \<lparr>statusCode = 500,
               headers = CORS_HEADERS,
               body = JSON_stringify
                 (JObject [(''error'',
                            JString (case error.message e of
                                       None \<Rightarrow> ''Internal Server Error''
                                     | Some m \<Rightarrow> if m \<noteq> [] then m else ''Internal Server Error'')),
                           (''details'', JString ''Global failure across all available models.'')])\<rparr>)"
proof -
  have so: "string_or (error.message e) d =
      (case error.message e of None \<Rightarrow> d | Some m \<Rightarrow> if m \<noteq> [] then m else d)" for e d
    by (cases "error.message e") simp_all
  obtain effects r where run: "generateWithFallback MODELS provider prompt 0 = (effects, r)"
    by (cases "generateWithFallback MODELS provider prompt 0")
  have tried: "handler_try JSON_parse provider ev =
    (case r of
       Inl e \<Rightarrow> (effects, Inl e)
     | Inr g \<Rightarrow>
         (effects,
          Inr \<lparr>statusCode = 200,
               headers = CORS_HEADERS,
               body = JSON_stringify
                 (JObject [(''result'', JString (result g)),
                           (''used_model'', JString (used_model g))])\<rparr>))"
    using handler_try_reaches_orchestrator [of ev payload JSON_parse parsed prompt provider] assms(2-6)
    by (simp add: run)
  show ?thesis
    using assms(1) by (cases r) (simp_all add: handler_def tried run so)
qed

theorem outcome_to_envelope_witness:
  "snd (handler (\<lambda>s. if s = ''{\"prompt\":\"Say hello\"}''
                       then Some (JObject [(''prompt'', JString ''Say hello'')]) else None)
          (\<lambda>i r. Inr \<lparr>choices = [\<lparr>message = Some \<lparr>content = Some ''Hello''\<rparr>\<rparr>]\<rparr>)
          \<lparr>httpMethod = ''POST'', body = Some ''{\"prompt\":\"Say hello\"}''\<rparr>) =
     \<lparr>statusCode = 200,
      headers = CORS_HEADERS,
      body = JSON_stringify
        (JObject [(''result'', JString ''Hello''),
                  (''used_model'', JString ''openai/gpt-oss-120b'')])\<rparr>
   \<and> snd (handler (\<lambda>s. if s = ''{\"prompt\":\"Say hello\"}''
                       then Some (JObject [(''prompt'', JString ''Say hello'')]) else None)
          (\<lambda>i r. Inl \<lparr>status = Some 401, statusCode = None, message = Some ''Invalid API key''\<rparr>)
          \<lparr>httpMethod = ''POST'', body = Some ''{\"prompt\":\"Say hello\"}''\<rparr>) =
     \<lparr>statusCode = 500,
      headers = CORS_HEADERS,
      body = JSON_stringify
        (JObject [(''error'', JString ''Invalid API key''),
                  (''details'', JString ''Global failure across all available models.'')])\<rparr>"
proof -
  let ?payload = "''{\"prompt\":\"Say hello\"}''"
  let ?parsed = "JObject [(''prompt'', JString ''Say hello'')]"
  let ?parse = "\<lambda>s. if s = ?payload then Some ?parsed else None"
  let ?ev = "\<lparr>httpMethod = ''POST'', body = Some ?payload\<rparr>"
  let ?prompt = "Some (JString ''Say hello'')"
  let ?completion = "\<lparr>choices = [\<lparr>message = Some \<lparr>content = Some ''Hello''\<rparr>\<rparr>]\<rparr>"
  let ?ok = "\<lambda>(i::nat) (r::json option chat_request). (Inr ?completion :: error + chat_completion)"
  let ?unauthorized = "\<lparr>status = Some 401, statusCode = None, message = Some ''Invalid API key''\<rparr>"
  let ?ko = "\<lambda>(i::nat) (r::json option chat_request). (Inl ?unauthorized :: error + chat_completion)"
  have h: "httpMethod ?ev = ''POST''" "event.body ?ev = Some ?payload" "?payload \<noteq> []"
    "?parse ?payload = Some ?parsed" "get_prompt ?parsed = Inr ?prompt" "truthy ?prompt"
    by simp_all
  have len: "0 < length MODELS" and first: "MODELS ! 0 = ''openai/gpt-oss-120b''"
    by (simp_all add: MODELS_def)
  have "generateWithFallback MODELS ?ok ?prompt 0 =
      ([Log_Attempt (0 + 1) (length MODELS) (MODELS ! 0), Create (request ?prompt (MODELS ! 0))],
       Inr \<lparr>result = completion_text ?completion, used_model = MODELS ! 0\<rparr>)"
    using len by (intro gwf_success) simp_all
  then have ok: "snd (generateWithFallback MODELS ?ok ?prompt 0) =
      Inr \<lparr>result = ''Hello'', used_model = ''openai/gpt-oss-120b''\<rparr>"
    by (simp add: completion_text_def first)
  have "\<not> switches (error_status ?unauthorized)"
    by (simp add: error_status_def switches_def)
  then have "generateWithFallback MODELS ?ko ?prompt 0 =
      ([Log_Attempt (0 + 1) (length MODELS) (MODELS ! 0), Create (request ?prompt (MODELS ! 0)),
        Warn_Fail (MODELS ! 0) (error_status ?unauthorized) (error.message ?unauthorized)],
       Inl ?unauthorized)"
    using len by (intro gwf_fatal) simp_all
  then have ko: "snd (generateWithFallback MODELS ?ko ?prompt 0) = Inl ?unauthorized"
    by simp
  have a: "snd (handler ?parse ?ok ?ev) =
     \<lparr>statusCode = 200,
      headers = CORS_HEADERS,
      body = JSON_stringify
        (JObject [(''result'', JString ''Hello''),
                  (''used_model'', JString ''openai/gpt-oss-120b'')])\<rparr>"
    using outcome_to_envelope [where JSON_parse = ?parse and provider = ?ok, OF h] ok
    by simp
  have b: "snd (handler ?parse ?ko ?ev) =
     \<lparr>statusCode = 500,
      headers = CORS_HEADERS,
      body = JSON_stringify
        (JObject [(''error'', JString ''Invalid API key''),
                  (''details'', JString ''Global failure across all available models.'')])\<rparr>"
    using outcome_to_envelope [where JSON_parse = ?parse and provider = ?ko, OF h] ko
    by simp
  show ?thesis
    using a b by blast
qed

text \<open>
  C8. Every response of the handler carries the same three headers:
  \<open>Access-Control-Allow-Origin: *\<close>, \<open>Access-Control-Allow-Headers: Content-Type\<close>
  and \<open>Access-Control-Allow-Methods: POST, OPTIONS\<close>.
\<close>

theorem every_response_has_cors_headers:
  "headers (snd (handler JSON_parse provider ev)) =
     [(''Access-Control-Allow-Origin'', ''*''),
      (''Access-Control-Allow-Headers'', ''Content-Type''),
      (''Access-Control-Allow-Methods'', ''POST, OPTIONS'')]"
proof -
  have "headers (snd (handler JSON_parse provider ev)) = CORS_HEADERS"
  proof (cases "handler_try JSON_parse provider ev")
    case (Pair effects outcome)
    show ?thesis
    proof (cases outcome)
      case (Inl e)
      with Pair show ?thesis
        by (simp add: handler_def error_response_def)
    next
      case (Inr r)
      with Pair have "headers r = CORS_HEADERS"
        using headers_handler_try [of JSON_parse provider ev r] by simp
      with Pair Inr show ?thesis
        by (simp add: handler_def error_response_def)
    qed
  qed
  then show ?thesis
    by (simp add: CORS_HEADERS_def)
qed

text \<open>
  C10. A POST whose body parses to an object with a \<open>prompt\<close> property bound to
  the empty string, 0, false or null is answered 400 with the message
  \<open>Missing 'prompt' in request body.\<close>, and the orchestrator is not called:
  the handler has no effect and its response does not depend on the provider.
\<close>

theorem falsy_prompt_is_missing:
  assumes "httpMethod ev = ''POST''"
    and "event.body ev = Some payload"
    and "payload \<noteq> []"
    and "JSON_parse payload = Some (JObject kvs)"
    and "map_of kvs ''prompt'' = Some v"
    and "v = JString '''' \<or> v = JNumber 0 \<or> v = JBool False \<or> v = JNull"
  shows "handler JSON_parse provider ev =
           ([],
            \<lparr>statusCode = 400,
             headers = CORS_HEADERS,
             body = JSON_stringify
               (JObject [(''error'', JString ''Missing 'prompt' in request body.'')])\<rparr>)"
proof -
  have "\<not> truthy (Some v)"
    using assms(6) by auto
  moreover have "get_prompt (JObject kvs) = Inr (Some v)"
    using assms(5) by simp
  ultimately have "handler_try JSON_parse provider ev =
      ([], Inr (error_response 400 ''Missing 'prompt' in request body.''))"
    using handler_try_falsy_prompt [of ev payload JSON_parse "JObject kvs" "Some v" provider] assms(2-4)
    by blast
  then show ?thesis
    using assms(1) by (simp add: handler_def error_response_def)
qed

theorem falsy_prompt_is_missing_witness:
  "handler (\<lambda>s. if s = ''{\"prompt\":\"\"}'' then Some (JObject [(''prompt'', JString '''')]) else None)
     (\<lambda>i r. Inr \<lparr>choices = [\<lparr>message = Some \<lparr>content = Some ''Hello''\<rparr>\<rparr>]\<rparr>)
     \<lparr>httpMethod = ''POST'', body = Some ''{\"prompt\":\"\"}''\<rparr> =
     ([],
      \<lparr>statusCode = 400,
       headers = CORS_HEADERS,
       body = JSON_stringify
         (JObject [(''error'', JString ''Missing 'prompt' in request body.'')])\<rparr>)"
proof -
  let ?payload = "''{\"prompt\":\"\"}''"
  let ?kvs = "[(''prompt'', JString '''')]"
  let ?parse = "\<lambda>s. if s = ?payload then Some (JObject ?kvs) else None"
  let ?ev = "\<lparr>httpMethod = ''POST'', body = Some ?payload\<rparr>"
  have h: "httpMethod ?ev = ''POST''" "event.body ?ev = Some ?payload" "?payload \<noteq> []"
    "?parse ?payload = Some (JObject ?kvs)" "map_of ?kvs ''prompt'' = Some (JString '''')"
    "JString '''' = JString '''' \<or> JString '''' = JNumber 0 \<or> JString '''' = JBool False
       \<or> JString '''' = JNull"
    by simp_all
  show ?thesis
    by (rule falsy_prompt_is_missing [where JSON_parse = ?parse, OF h])
qed

text \<open>
  C7, at the input where the table fails. A POST whose body is the JSON text
  \<open>null\<close> parses, and the parsed value has no prompt; reading \<open>prompt\<close> of it
  throws, the \<open>catch\<close> of the handler takes the TypeError, and the response
  is 500 with the TypeError's message and the details
  \<open>Global failure across all available models.\<close>, not 400 with
  \<open>Missing 'prompt' in request body.\<close> No request is sent to the provider.
\<close>

theorem null_body_is_answered_500:
  assumes "httpMethod ev = ''POST''"
    and "event.body ev = Some payload"
    and "payload \<noteq> []"
    and "JSON_parse payload = Some JNull"
  shows "handler JSON_parse provider ev =
           ([Error_Critical TypeError_prompt_of_null],
            \<lparr>statusCode = 500,
             headers = CORS_HEADERS,
             body = JSON_stringify
               (JObject [(''error'', JString ''Cannot read properties of null (reading 'prompt')''),
                         (''details'', JString ''Global failure across all available models.'')])\<rparr>)
         \<and> snd (handler JSON_parse provider ev) \<noteq>
             \<lparr>statusCode = 400,
              headers = CORS_HEADERS,
              body = JSON_stringify
                (JObject [(''error'', JString ''Missing 'prompt' in request body.'')])\<rparr>"
proof -
  have "handler_try JSON_parse provider ev = ([], Inl TypeError_prompt_of_null)"
    using assms(2-4) by (simp add: handler_try_def)
  then have "handler JSON_parse provider ev =
           ([Error_Critical TypeError_prompt_of_null],
            \<lparr>statusCode = 500,
             headers = CORS_HEADERS,
             body = JSON_stringify
               (JObject [(''error'', JString ''Cannot read properties of null (reading 'prompt')''),
                         (''details'', JString ''Global failure across all available models.'')])\<rparr>)"
    using assms(1) by (simp add: handler_def TypeError_prompt_of_null_def Error_def)
  then show ?thesis
    by simp
qed

theorem null_body_is_answered_500_witness:
  "statusCode (snd (handler (\<lambda>s. if s = ''null'' then Some JNull else None)
     (\<lambda>i r. Inr \<lparr>choices = [\<lparr>message = Some \<lparr>content = Some ''Hello''\<rparr>\<rparr>]\<rparr>)
     \<lparr>httpMethod = ''POST'', body = Some ''null''\<rparr>)) = 500
   \<and> fst (handler (\<lambda>s. if s = ''null'' then Some JNull else None)
     (\<lambda>i r. Inr \<lparr>choices = [\<lparr>message = Some \<lparr>content = Some ''Hello''\<rparr>\<rparr>]\<rparr>)
     \<lparr>httpMethod = ''POST'', body = Some ''null''\<rparr>) =
     [Error_Critical TypeError_prompt_of_null]"
proof -
  let ?parse = "\<lambda>s. if s = ''null'' then Some JNull else None"
  let ?ev = "\<lparr>httpMethod = ''POST'', body = Some ''null''\<rparr>"
  let ?ok = "\<lambda>(i::nat) (r::json option chat_request).
     (Inr \<lparr>choices = [\<lparr>message = Some \<lparr>content = Some ''Hello''\<rparr>\<rparr>]\<rparr> :: error + chat_completion)"
  have h: "httpMethod ?ev = ''POST''" "event.body ?ev = Some ''null''" "''null'' \<noteq> []"
    "?parse ''null'' = Some JNull"
    by simp_all
  show ?thesis
    using null_body_is_answered_500 [where JSON_parse = ?parse and provider = ?ok, OF h]
    by simp
qed

text \<open>
  The rows of the transport validation that hold for every request: OPTIONS is
  answered 200 with the body \<open>OK\<close> whatever the body of the request; any
  other method than POST is answered 405; a POST without a body or with the
  empty body is answered 400 \<open>Request body is empty.\<close>; a POST whose body does
  not parse is answered 400 \<open>Invalid JSON in request body.\<close>; a POST whose
  body parses to a value other than null that has no \<open>prompt\<close> property is
  answered 400 \<open>Missing 'prompt' in request body.\<close> None of them sends a
  request to the provider.
\<close>

theorem transport_validation:
  "(httpMethod ev = ''OPTIONS'' \<longrightarrow>
      handler JSON_parse provider ev =
        ([], \<lparr>statusCode = 200, headers = CORS_HEADERS, body = Text ''OK''\<rparr>))
   \<and> (httpMethod ev \<noteq> ''OPTIONS'' \<and> httpMethod ev \<noteq> ''POST'' \<longrightarrow>
      handler JSON_parse provider ev =
        ([], \<lparr>statusCode = 405, headers = CORS_HEADERS,
              body = JSON_stringify (JObject [(''error'', JString ''Method Not Allowed. Use POST.'')])\<rparr>))
   \<and> (httpMethod ev = ''POST'' \<and> (event.body ev = None \<or> event.body ev = Some '''') \<longrightarrow>
      handler JSON_parse provider ev =
        ([], \<lparr>statusCode = 400, headers = CORS_HEADERS,
              body = JSON_stringify (JObject [(''error'', JString ''Request body is empty.'')])\<rparr>))
   \<and> (\<forall>payload. httpMethod ev = ''POST'' \<and> event.body ev = Some payload \<and> payload \<noteq> [] \<and>
        JSON_parse payload = None \<longrightarrow>
      handler JSON_parse provider ev =
        ([], \<lparr>statusCode = 400, headers = CORS_HEADERS,
              body = JSON_stringify (JObject [(''error'', JString ''Invalid JSON in request body.'')])\<rparr>))
   \<and> (\<forall>payload parsed. httpMethod ev = ''POST'' \<and> event.body ev = Some payload \<and> payload \<noteq> [] \<and>
        JSON_parse payload = Some parsed \<and> parsed \<noteq> JNull \<and>
        (\<forall>kvs. parsed = JObject kvs \<longrightarrow> map_of kvs ''prompt'' = None) \<longrightarrow>
      handler JSON_parse provider ev =
        ([], \<lparr>statusCode = 400, headers = CORS_HEADERS,
              body = JSON_stringify (JObject [(''error'', JString ''Missing 'prompt' in request body.'')])\<rparr>))"
proof -
  have no_prompt: "get_prompt parsed = Inr None"
    if "parsed \<noteq> JNull" "\<forall>kvs. parsed = JObject kvs \<longrightarrow> map_of kvs ''prompt'' = None"
    for parsed
    using that by (cases parsed) simp_all
  have missing: "handler JSON_parse provider ev =
        ([], \<lparr>statusCode = 400, headers = CORS_HEADERS,
              body = JSON_stringify (JObject [(''error'', JString ''Missing 'prompt' in request body.'')])\<rparr>)"
    if "httpMethod ev = ''POST''" "event.body ev = Some payload" "payload \<noteq> []"
      "JSON_parse payload = Some parsed" "parsed \<noteq> JNull"
      "\<forall>kvs. parsed = JObject kvs \<longrightarrow> map_of kvs ''prompt'' = None"
    for payload parsed
  proof -
    have "handler_try JSON_parse provider ev =
        ([], Inr (error_response 400 ''Missing 'prompt' in request body.''))"
      using handler_try_falsy_prompt [of ev payload JSON_parse parsed None provider]
        that(2-4) no_prompt [OF that(5,6)] by simp
    then show ?thesis
      using that(1) by (simp add: handler_def error_response_def)
  qed
  have options: "httpMethod ev = ''OPTIONS'' \<longrightarrow>
      handler JSON_parse provider ev =
        ([], \<lparr>statusCode = 200, headers = CORS_HEADERS, body = Text ''OK''\<rparr>)"
    by (simp add: handler_def)
  have other: "httpMethod ev \<noteq> ''OPTIONS'' \<and> httpMethod ev \<noteq> ''POST'' \<longrightarrow>
      handler JSON_parse provider ev =
        ([], \<lparr>statusCode = 405, headers = CORS_HEADERS,
              body = JSON_stringify (JObject [(''error'', JString ''Method Not Allowed. Use POST.'')])\<rparr>)"
    by (simp add: handler_def error_response_def)
  have empty: "httpMethod ev = ''POST'' \<and> (event.body ev = None \<or> event.body ev = Some '''') \<longrightarrow>
      handler JSON_parse provider ev =
        ([], \<lparr>statusCode = 400, headers = CORS_HEADERS,
              body = JSON_stringify (JObject [(''error'', JString ''Request body is empty.'')])\<rparr>)"
    by (auto simp: handler_def handler_try_def error_response_def)
  have invalid: "\<forall>payload. httpMethod ev = ''POST'' \<and> event.body ev = Some payload \<and> payload \<noteq> [] \<and>
        JSON_parse payload = None \<longrightarrow>
      handler JSON_parse provider ev =
        ([], \<lparr>statusCode = 400, headers = CORS_HEADERS,
              body = JSON_stringify (JObject [(''error'', JString ''Invalid JSON in request body.'')])\<rparr>)"
    by (simp add: handler_def handler_try_def error_response_def)
  show ?thesis
    using options other empty invalid missing by blast
qed

theorem transport_validation_witness:
  "handler (\<lambda>s. if s = ''{}'' then Some (JObject []) else None) (\<lambda>i r. Inl exhausted)
     \<lparr>httpMethod = ''OPTIONS'', body = Some ''not json''\<rparr> =
     ([], \<lparr>statusCode = 200, headers = CORS_HEADERS, body = Text ''OK''\<rparr>)
   \<and> statusCode (snd (handler (\<lambda>s. if s = ''{}'' then Some (JObject []) else None) (\<lambda>i r. Inl exhausted)
     \<lparr>httpMethod = ''GET'', body = None\<rparr>)) = 405
   \<and> handler (\<lambda>s. if s = ''{}'' then Some (JObject []) else None) (\<lambda>i r. Inl exhausted)
     \<lparr>httpMethod = ''POST'', body = None\<rparr> =
     ([], \<lparr>statusCode = 400, headers = CORS_HEADERS,
           body = JSON_stringify (JObject [(''error'', JString ''Request body is empty.'')])\<rparr>)
   \<and> handler (\<lambda>s. if s = ''{}'' then Some (JObject []) else None) (\<lambda>i r. Inl exhausted)
     \<lparr>httpMethod = ''POST'', body = Some ''not json''\<rparr> =
     ([], \<lparr>statusCode = 400, headers = CORS_HEADERS,
           body = JSON_stringify (JObject [(''error'', JString ''Invalid JSON in request body.'')])\<rparr>)
   \<and> handler (\<lambda>s. if s = ''{}'' then Some (JObject []) else None) (\<lambda>i r. Inl exhausted)
     \<lparr>httpMethod = ''POST'', body = Some ''{}''\<rparr> =
     ([], \<lparr>statusCode = 400, headers = CORS_HEADERS,
           body = JSON_stringify (JObject [(''error'', JString ''Missing 'prompt' in request body.'')])\<rparr>)"
proof -
  let ?parse = "\<lambda>s. if s = ''{}'' then Some (JObject []) else None"
  let ?down = "\<lambda>(i::nat) (r::json option chat_request). (Inl exhausted :: error + chat_completion)"
  let ?options = "\<lparr>httpMethod = ''OPTIONS'', body = Some ''not json''\<rparr>"
  let ?get = "\<lparr>httpMethod = ''GET'', body = None\<rparr>"
  let ?nobody = "\<lparr>httpMethod = ''POST'', body = None\<rparr>"
  let ?garbage = "\<lparr>httpMethod = ''POST'', body = Some ''not json''\<rparr>"
  let ?braces = "\<lparr>httpMethod = ''POST'', body = Some ''{}''\<rparr>"
  have a: "handler ?parse ?down ?options =
      ([], \<lparr>statusCode = 200, headers = CORS_HEADERS, body = Text ''OK''\<rparr>)"
    using transport_validation [of ?options ?parse ?down] by simp
  have b: "statusCode (snd (handler ?parse ?down ?get)) = 405"
    using transport_validation [of ?get ?parse ?down] by simp
  have c: "handler ?parse ?down ?nobody =
     ([], \<lparr>statusCode = 400, headers = CORS_HEADERS,
           body = JSON_stringify (JObject [(''error'', JString ''Request body is empty.'')])\<rparr>)"
    using transport_validation [of ?nobody ?parse ?down] by simp
  have d: "handler ?parse ?down ?garbage =
     ([], \<lparr>statusCode = 400, headers = CORS_HEADERS,
           body = JSON_stringify (JObject [(''error'', JString ''Invalid JSON in request body.'')])\<rparr>)"
    using transport_validation [of ?garbage ?parse ?down] by simp
  have e: "handler ?parse ?down ?braces =
     ([], \<lparr>statusCode = 400, headers = CORS_HEADERS,
           body = JSON_stringify (JObject [(''error'', JString ''Missing 'prompt' in request body.'')])\<rparr>)"
    using transport_validation [of ?braces ?parse ?down] by simp
  show ?thesis
    using a b c d e by blast
qed

end
